theory Spec2Isabelle
  imports Complex_Main "HOL-Library.Word"
begin

section \<open>JavaScript strings\<close>

text \<open>
  A JavaScript string is a sequence of 16-bit UTF-16 code units. String literals of the
  source are written with \<open>lit\<close>, which maps every character of an ASCII literal to
  its code unit; code units outside printable ASCII are written as numerals.
\<close>

type_synonym jschar = "16 word"
type_synonym jsstring = "jschar list"

definition lit :: "string \<Rightarrow> jsstring" where
  "lit s = map of_char s"

text \<open>
  \<open>String.prototype.trim\<close> strips the ECMAScript WhiteSpace and LineTerminator code
  points from both ends: TAB, LF, VT, FF, CR, SPACE, NBSP, the Unicode space separators,
  LS, PS and the byte order mark. The regular expression class for white space is the same set.
\<close>

definition isWhiteSpace :: "jschar \<Rightarrow> bool" where
  "isWhiteSpace c =
     (c = 0x09 \<or> c = 0x0A \<or> c = 0x0B \<or> c = 0x0C \<or> c = 0x0D \<or> c = 0x20 \<or> c = 0xA0 \<or>
      c = 0x1680 \<or> (0x2000 \<le> c \<and> c \<le> 0x200A) \<or> c = 0x2028 \<or> c = 0x2029 \<or>
      c = 0x202F \<or> c = 0x205F \<or> c = 0x3000 \<or> c = 0xFEFF)"

definition trim :: "jsstring \<Rightarrow> jsstring" where
  "trim s = rev (dropWhile isWhiteSpace (rev (dropWhile isWhiteSpace s)))"



definition toUpperUnits :: "jschar \<Rightarrow> jsstring" where
  "toUpperUnits c =
     (if 0x61 \<le> c \<and> c \<le> 0x7A then [c - 0x20]
      else if 0xE0 \<le> c \<and> c \<le> 0xFE \<and> c \<noteq> 0xF7 then [c - 0x20]
      else if c = 0xDF then [0x53, 0x53]
      else if c = 0xB5 then [0x39C]
      else if c = 0xFF then [0x178]
      else [c])"

definition toUpperCase :: "jsstring \<Rightarrow> jsstring" where
  "toUpperCase s = concat (map toUpperUnits s)"

fun startsWith :: "jsstring \<Rightarrow> jsstring \<Rightarrow> bool" where
  "startsWith s [] = True"
| "startsWith [] (k # ks) = False"
| "startsWith (c # cs) (k # ks) = (c = k \<and> startsWith cs ks)"


section \<open>Data model of the agents (base-agent.ts)\<close>

text \<open>
  JSON values stand for the untyped data of the source (the \<open>Record\<close> metadata of a response
  and parsed model replies). Numbers are rationals; the rounding of IEEE
  doubles is not modelled.
\<close>

datatype json =
    JNull
  | JBool bool
  | JNum rat
  | JStr jsstring
  | JArr "json list"
  | JObj "(jsstring \<times> json) list"

text \<open>JavaScript truthiness of a value that may be \<open>undefined\<close> (\<open>None\<close>).\<close>

fun truthy :: "json option \<Rightarrow> bool" where
  "truthy None = False"
| "truthy (Some JNull) = False"
| "truthy (Some (JBool b)) = b"
| "truthy (Some (JNum n)) = (n \<noteq> 0)"
| "truthy (Some (JStr s)) = (s \<noteq> [])"
| "truthy (Some (JArr xs)) = True"
| "truthy (Some (JObj kvs)) = True"

datatype language = english | urdu

text \<open>
  \<open>AgentResponse\<close>; the \<open>timestamp: Date\<close> field is wall-clock time and is left
  out of the model.
\<close>

record AgentResponse =
  agentName :: jsstring
  response :: jsstring
  confidence :: rat
  metadata :: "(jsstring \<times> json) list option"

record AgentContext =
  conversationId :: "jsstring option"
  userId :: "jsstring option"
  language :: language
  previousResponses :: "AgentResponse list option"
  medicalHistory :: "jsstring list option"

section \<open>canHandle of the registered agents\<close>









text \<open>
  drug-information-agent.ts, \<open>DrugInformationAgent.canHandle\<close>: no keyword list is
  consulted; the agent accepts every input that is not blank.
\<close>

definition DrugInformationAgent_canHandle :: "jsstring \<Rightarrow> AgentContext \<Rightarrow> bool" where
  "DrugInformationAgent_canHandle input context =
     (let normalized = trim input
      in length normalized > 0)"

section \<open>The OpenRouter client (openrouter.ts)\<close>

text \<open>
  The runtime supplies what the source takes from the JavaScript engine: \<open>JSON.parse\<close>
  (\<open>None\<close> when it throws a SyntaxError) and the string conversion of numbers, arrays
  and objects.
\<close>

record runtime =
  JSON_parse :: "jsstring \<Rightarrow> json option"
  ToString :: "json \<Rightarrow> jsstring"

text \<open>
  Errors as values. \<open>Error m\<close> is \<open>new Error(m)\<close> thrown by the source itself; the
  others are raised outside it: a SyntaxError of \<open>JSON.parse\<close>, a TypeError of a
  property access or call, a rejected \<open>fetch\<close>, and \<open>Rejection\<close> for whatever an
  agent's \<open>process\<close> throws.
\<close>

datatype js_error = Error jsstring | TypeError | SyntaxError | FetchError | Rejection

record OpenRouterConfig =
  cfg_apiKey :: "jsstring option"
  cfg_baseUrl :: "jsstring option"

record OpenRouterClient =
  apiKey :: jsstring
  baseUrl :: jsstring

text \<open>
  The constructor; \<open>envKey\<close> is \<open>process.env.OPENROUTER_API_KEY\<close>. An empty string
  is falsy, so \<open>||\<close> skips it.
\<close>

definition orElse :: "jsstring option \<Rightarrow> jsstring \<Rightarrow> jsstring" where
  "orElse v d = (case v of None \<Rightarrow> d | Some s \<Rightarrow> (if s = [] then d else s))"

definition OpenRouterClient_new :: "jsstring option \<Rightarrow> OpenRouterConfig option \<Rightarrow> OpenRouterClient" where
  "OpenRouterClient_new envKey config =
     \<lparr> apiKey = orElse (case config of None \<Rightarrow> None | Some c \<Rightarrow> cfg_apiKey c) (orElse envKey []),
       baseUrl = orElse (case config of None \<Rightarrow> None | Some c \<Rightarrow> cfg_baseUrl c)
                   (lit ''https://openrouter.ai/api/v1'') \<rparr>"

text \<open>
  The request of \<open>generate\<close>. \<open>prompt\<close> is declared \<open>any\<close>: the code
  distinguishes an array of parts, a string, and everything else.
\<close>

record InlineData =
  mimeType :: jsstring
  inline_data :: jsstring

record Part =
  part_text :: "jsstring option"
  part_inlineData :: "InlineData option"

datatype prompt_value = PromptParts "Part list" | PromptString jsstring | PromptOther

record GenerateRequest =
  req_prompt :: prompt_value
  req_system :: "jsstring option"
  req_model :: "jsstring option"
  req_output :: bool

record HttpRequest =
  url :: jsstring
  http_method :: jsstring
  headers :: "(jsstring \<times> jsstring) list"
  body :: json

record HttpResponse =
  ok :: bool
  status :: nat
  bodyText :: jsstring

datatype fetch_outcome = FetchRejected | FetchResolved HttpResponse

record GenerateResult =
  res_text :: "json option"
  res_output :: "json option"

text \<open>Decimal digits of a status code, as the template literal prints it.\<close>

fun showNat :: "nat \<Rightarrow> jsstring" where
  "showNat n = (if n < 10 then [of_nat (48 + n)]
                else showNat (n div 10) @ [of_nat (48 + n mod 10)])"

declare showNat.simps [simp del]

text \<open>The value of a decimal digit.\<close>

definition digitValue :: "jschar \<Rightarrow> nat" where
  "digitValue c = unat c - 48"

text \<open>Lines 41-79: the \<open>messages\<close> array built from the system prompt and the prompt.\<close>

definition partContent :: "Part \<Rightarrow> json list" where
  "partContent p =
     (case part_text p of
        Some t \<Rightarrow>
          (if t \<noteq> [] then [JObj [(lit ''type'', JStr (lit ''text'')), (lit ''text'', JStr t)]]
           else (case part_inlineData p of
                   None \<Rightarrow> []
                 | Some d \<Rightarrow>
                     [JObj [(lit ''type'', JStr (lit ''image_url'')),
                            (lit ''image_url'',
                             JObj [(lit ''url'',
                                    JStr (lit ''data:'' @ mimeType d @ lit '';base64,'' @ inline_data d))])]]))
      | None \<Rightarrow>
          (case part_inlineData p of
             None \<Rightarrow> []
           | Some d \<Rightarrow>
               [JObj [(lit ''type'', JStr (lit ''image_url'')),
                      (lit ''image_url'',
                       JObj [(lit ''url'',
                              JStr (lit ''data:'' @ mimeType d @ lit '';base64,'' @ inline_data d))])]]))"

definition systemMessage :: "jsstring \<Rightarrow> json" where
  "systemMessage s = JObj [(lit ''role'', JStr (lit ''system'')), (lit ''content'', JStr s)]"

definition userMessage :: "json \<Rightarrow> json" where
  "userMessage c = JObj [(lit ''role'', JStr (lit ''user'')), (lit ''content'', c)]"

definition userContent :: "json list \<Rightarrow> json" where
  "userContent content =
     (case content of
        [JObj [(k1, JStr ty), (k2, t)]] \<Rightarrow>
          (if k1 = lit ''type'' \<and> ty = lit ''text'' \<and> k2 = lit ''text'' then t else JArr content)
      | _ \<Rightarrow> JArr content)"

definition generate_messages :: "GenerateRequest \<Rightarrow> json list" where
  "generate_messages request =
     (case req_system request of
        None \<Rightarrow> []
      | Some s \<Rightarrow> (if s \<noteq> [] then [systemMessage s] else [])) @
     (case req_prompt request of
        PromptParts parts \<Rightarrow> [userMessage (userContent (concat (map partContent parts)))]
      | PromptString p \<Rightarrow> [userMessage (JStr p)]
      | PromptOther \<Rightarrow> [])"

text \<open>Lines 83-97: the one \<open>fetch\<close> call.\<close>

definition generate_request :: "OpenRouterClient \<Rightarrow> GenerateRequest \<Rightarrow> HttpRequest" where
  "generate_request client request =
     (let model = (case req_model request of
                     None \<Rightarrow> lit ''meta-llama/llama-3.2-3b-instruct:free''
                   | Some m \<Rightarrow> m);
          messages = generate_messages request
      in \<lparr> url = baseUrl client @ lit ''/chat/completions'',
           http_method = lit ''POST'',
           headers = [(lit ''Authorization'', lit ''Bearer '' @ apiKey client),
                      (lit ''Content-Type'', lit ''application/json''),
                      (lit ''HTTP-Referer'', lit ''http://localhost:9002''),
                      (lit ''X-Title'', lit ''AI-LTH Health Assistant'')],
           body = JObj [(lit ''model'', JStr model),
                        (lit ''messages'', JArr messages),
                        (lit ''temperature'', JNum (7 / 10)),
                        (lit ''max_tokens'', JNum 4000)] \<rparr>)"

text \<open>
  Property and index access on parsed JSON. None of the keys read here
  (\<open>choices\<close>, \<open>message\<close>, \<open>content\<close>) is a built-in property of arrays, strings,
  numbers or booleans, so on those the access yields \<open>undefined\<close>.
\<close>

definition nullish :: "json option \<Rightarrow> bool" where
  "nullish v = (v = None \<or> v = Some JNull)"

fun getProp :: "jsstring \<Rightarrow> json \<Rightarrow> json option" where
  "getProp k (JObj kvs) = map_of kvs k"
| "getProp k v = None"

fun elem0 :: "json \<Rightarrow> json option" where
  "elem0 (JArr xs) = (case xs of [] \<Rightarrow> None | x # _ \<Rightarrow> Some x)"
| "elem0 (JStr s) = (case s of [] \<Rightarrow> None | c # _ \<Rightarrow> Some (JStr [c]))"
| "elem0 (JObj kvs) = map_of kvs (lit ''0'')"
| "elem0 v = None"

definition optChain :: "json option \<Rightarrow> (json \<Rightarrow> json option) \<Rightarrow> json option" where
  "optChain v f = (case v of None \<Rightarrow> None | Some JNull \<Rightarrow> None | Some x \<Rightarrow> f x)"

fun jsToString :: "runtime \<Rightarrow> json option \<Rightarrow> jsstring" where
  "jsToString rt None = lit ''undefined''"
| "jsToString rt (Some JNull) = lit ''null''"
| "jsToString rt (Some (JBool b)) = (if b then lit ''true'' else lit ''false'')"
| "jsToString rt (Some (JStr s)) = s"
| "jsToString rt (Some v) = ToString rt v"

definition tryParseJSON :: "runtime \<Rightarrow> json option \<Rightarrow> json option" where
  "tryParseJSON rt txt =
     (case JSON_parse rt (jsToString rt txt) of
        Some v \<Rightarrow> Some v
      | None \<Rightarrow> txt)"

text \<open>Lines 105-117: reading the reply of a response that is OK.\<close>

definition generate_result :: "runtime \<Rightarrow> GenerateRequest \<Rightarrow> jsstring \<Rightarrow> js_error + GenerateResult" where
  "generate_result rt request bodyTxt =
     (case JSON_parse rt bodyTxt of
        None \<Rightarrow> Inl SyntaxError
      | Some JNull \<Rightarrow> Inl TypeError
      | Some data \<Rightarrow>
          (let logged = optChain (optChain (optChain (getProp (lit ''choices'') data) elem0)
                                    (getProp (lit ''message''))) (getProp (lit ''content''))
           in if \<not> nullish logged \<and> (case logged of Some (JStr s) \<Rightarrow> False | _ \<Rightarrow> True)
              then Inl TypeError
              else (case getProp (lit ''choices'') data of
                      None \<Rightarrow> Inl (Error (lit ''Invalid response from OpenRouter API''))
                    | Some choices \<Rightarrow>
                        (if \<not> truthy (Some choices) \<or> \<not> truthy (elem0 choices) \<or>
                            \<not> truthy (optChain (elem0 choices) (getProp (lit ''message'')))
                         then Inl (Error (lit ''Invalid response from OpenRouter API''))
                         else (let responseText =
                                     optChain (optChain (elem0 choices) (getProp (lit ''message'')))
                                       (getProp (lit ''content''))
                               in Inr \<lparr> res_text = responseText,
                                        res_output = (if req_output request
                                                      then tryParseJSON rt responseText
                                                      else None) \<rparr>)))))"

text \<open>
  \<open>OpenRouterClient.generate\<close>. The result pairs the HTTP requests the call issued, in
  order, with what the call returns or throws.
\<close>

definition generate ::
  "runtime \<Rightarrow> (HttpRequest \<Rightarrow> fetch_outcome) \<Rightarrow> OpenRouterClient \<Rightarrow> GenerateRequest
     \<Rightarrow> HttpRequest list \<times> (js_error + GenerateResult)" where
  "generate rt fetch client request =
     (if apiKey client = []
      then ([], Inl (Error (lit ''OpenRouter API key not configured. Please add OPENROUTER_API_KEY'' @
                            lit '' to your environment variables.'')))
      else (let httpRequest = generate_request client request
            in (case fetch httpRequest of
                  FetchRejected \<Rightarrow> ([httpRequest], Inl FetchError)
                | FetchResolved resp \<Rightarrow>
                    (if \<not> ok resp
                     then ([httpRequest],
                           Inl (Error (lit ''OpenRouter API error: '' @ showNat (status resp) @
                                       lit '' - '' @ bodyText resp)))
                     else ([httpRequest], generate_result rt request (bodyText resp))))))"

text \<open>The role of a message of the \<open>messages\<close> array.\<close>

definition isSystemMessage :: "json \<Rightarrow> bool" where
  "isSystemMessage m = (getProp (lit ''role'') m = Some (JStr (lit ''system'')))"

definition isUserMessage :: "json \<Rightarrow> bool" where
  "isUserMessage m = (getProp (lit ''role'') m = Some (JStr (lit ''user'')))"

section \<open>The orchestrator (orchestrator.ts)\<close>

datatype query_type =
  medicine | drug_interaction | dosage | side_effects | medical_documentation | general

datatype complexity_level = simple | moderate | complex

record QueryAnalysis =
  queryType :: query_type
  complexity :: complexity_level
  requiredAgents :: "jsstring list"
  priority :: rat
  medicalEntities :: "jsstring list"

text \<open>
  \<open>OrchestratorResponse\<close>. Its field \<open>confidence\<close> is named \<open>overallConfidence\<close>,
  since \<open>confidence\<close> already names the field of an agent response.
\<close>

record OrchestratorResponse =
  primaryResponse :: jsstring
  agentResponses :: "AgentResponse list"
  queryAnalysis :: QueryAnalysis
  overallConfidence :: rat
  reasoning :: "jsstring list"

text \<open>
  The input of a query: a string, or an object with optional \<open>text\<close> and
  \<open>imageDataUri\<close>.
\<close>

datatype query_input = TextInput jsstring | ObjectInput "jsstring option" "jsstring option"

text \<open>
  What the orchestrator does is recorded in a trace: the private methods it enters, the
  requests it hands to \<open>openRouterClient.generate\<close>, and the agents whose
  \<open>process\<close> it invokes.
\<close>

datatype step = AnalyzeQuery | RouteToAgents | SynthesizeResponses | UpdateConversationMemory

datatype event = Enter step | LLMCall GenerateRequest | AgentProcess jsstring

text \<open>
  A registered agent. \<open>canHandle\<close> is synchronous and returns a boolean;
  \<open>process\<close> is asynchronous and its promise may reject (\<open>None\<close>). What an agent
  answers is decided outside the orchestrator (by the model it calls), so \<open>process\<close>
  is given the trace so far and may answer differently each time it is invoked.
\<close>

record Agent =
  agent_name :: jsstring
  canHandle :: "jsstring \<Rightarrow> AgentContext \<Rightarrow> bool"
  process :: "event list \<Rightarrow> query_input \<Rightarrow> AgentContext \<Rightarrow> AgentResponse option"

text \<open>
  The orchestrator object: its two private maps, and the trace. The maps are keyed by
  strings; only membership and lookup are used, so insertion order is not modelled.
\<close>

record Orchestrator =
  agents :: "jsstring \<Rightarrow> Agent option"
  conversationMemory :: "jsstring \<Rightarrow> AgentContext list option"
  trace :: "event list"

definition newOrchestrator :: Orchestrator where
  "newOrchestrator = \<lparr> agents = Map.empty, conversationMemory = Map.empty, trace = [] \<rparr>"

definition registerAgent :: "Agent \<Rightarrow> Orchestrator \<Rightarrow> Orchestrator" where
  "registerAgent agent orch = orch\<lparr> agents := (agents orch)(agent_name agent \<mapsto> agent) \<rparr>"

text \<open>
  The outside world of the orchestrator: the runtime, and the outcome of each call of
  \<open>openRouterClient.generate\<close>, which either throws or returns a result whose
  \<open>text\<close> is a string or missing (the provider's \<open>content\<close> is a string or
  \<open>null\<close>). The outcome may depend on everything done before.
\<close>

datatype llm_outcome = LLMThrows | LLMReplies "jsstring option"

record environment =
  env_runtime :: runtime
  llm :: "event list \<Rightarrow> GenerateRequest \<Rightarrow> llm_outcome"

definition logEvent :: "event \<Rightarrow> Orchestrator \<Rightarrow> Orchestrator" where
  "logEvent e orch = orch\<lparr> trace := trace orch @ [e] \<rparr>"

definition languageName :: "language \<Rightarrow> jsstring" where
  "languageName l = (case l of english \<Rightarrow> lit ''english'' | urdu \<Rightarrow> lit ''urdu'')"

definition queryTypeName :: "query_type \<Rightarrow> jsstring" where
  "queryTypeName t =
     (case t of
        medicine \<Rightarrow> lit ''medicine''
      | drug_interaction \<Rightarrow> lit ''drug_interaction''
      | dosage \<Rightarrow> lit ''dosage''
      | side_effects \<Rightarrow> lit ''side_effects''
      | medical_documentation \<Rightarrow> lit ''medical_documentation''
      | general \<Rightarrow> lit ''general'')"

subsection \<open>callAnalysisLLM\<close>

definition callAnalysisLLM ::
  "environment \<Rightarrow> jsstring \<Rightarrow> AgentContext \<Rightarrow> Orchestrator \<Rightarrow> jsstring option \<times> Orchestrator" where
  "callAnalysisLLM env prompt context orch =
     (let request =
            \<lparr> req_prompt = PromptString prompt,
              req_system = Some (
                lit ''You are a medical query analysis expert helping coordinate '' @
                lit ''specialized medical agents. Always provide accurate JSON '' @
                lit ''responses when requested. Respond in '' @ languageName (language context) @
                lit ''.''),
              req_model = Some (lit ''meta-llama/llama-3.2-3b-instruct:free''),
              req_output = False \<rparr>
      in (case llm env (trace orch) request of
            LLMThrows \<Rightarrow> (None, logEvent (LLMCall request) orch)
          | LLMReplies txt \<Rightarrow> (Some (orElse txt []), logEvent (LLMCall request) orch)))"

subsection \<open>analyzeQuery\<close>

text \<open>
  \<open>QueryAnalysisSchema.parse\<close>: the zod schema accepts an object whose five fields
  have the declared shapes and returns exactly those fields.
\<close>

definition parseQueryType :: "json option \<Rightarrow> query_type option" where
  "parseQueryType v =
     (case v of
        Some (JStr s) \<Rightarrow>
          (if s = lit ''medicine'' then Some medicine
           else if s = lit ''drug_interaction'' then Some drug_interaction
           else if s = lit ''dosage'' then Some dosage
           else if s = lit ''side_effects'' then Some side_effects
           else if s = lit ''medical_documentation'' then Some medical_documentation
           else if s = lit ''general'' then Some general
           else None)
      | _ \<Rightarrow> None)"

definition parseComplexity :: "json option \<Rightarrow> complexity_level option" where
  "parseComplexity v =
     (case v of
        Some (JStr s) \<Rightarrow>
          (if s = lit ''simple'' then Some simple
           else if s = lit ''moderate'' then Some moderate
           else if s = lit ''complex'' then Some complex
           else None)
      | _ \<Rightarrow> None)"

fun parseStrings :: "json list \<Rightarrow> jsstring list option" where
  "parseStrings [] = Some []"
| "parseStrings (JStr s # xs) = (case parseStrings xs of None \<Rightarrow> None | Some ss \<Rightarrow> Some (s # ss))"
| "parseStrings (x # xs) = None"

definition parseStringArray :: "json option \<Rightarrow> jsstring list option" where
  "parseStringArray v = (case v of Some (JArr xs) \<Rightarrow> parseStrings xs | _ \<Rightarrow> None)"

definition parsePriority :: "json option \<Rightarrow> rat option" where
  "parsePriority v =
     (case v of
        Some (JNum n) \<Rightarrow> (if 1 \<le> n \<and> n \<le> 10 then Some n else None)
      | _ \<Rightarrow> None)"

definition QueryAnalysisSchema_parse :: "json \<Rightarrow> QueryAnalysis option" where
  "QueryAnalysisSchema_parse j =
     (case j of
        JObj kvs \<Rightarrow>
          (case (parseQueryType (map_of kvs (lit ''queryType'')),
                 parseComplexity (map_of kvs (lit ''complexity'')),
                 parseStringArray (map_of kvs (lit ''requiredAgents'')),
                 parsePriority (map_of kvs (lit ''priority'')),
                 parseStringArray (map_of kvs (lit ''medicalEntities''))) of
             (Some qt, Some cx, Some ra, Some pr, Some me) \<Rightarrow>
               Some \<lparr> queryType = qt, complexity = cx, requiredAgents = ra,
                      priority = pr, medicalEntities = me \<rparr>
           | _ \<Rightarrow> None)
      | _ \<Rightarrow> None)"

definition analysisPrompt :: "jsstring \<Rightarrow> jsstring" where
  "analysisPrompt queryText =
     lit ''You are a medical query analysis expert. Analyze the following '' @
     lit ''medical query and determine:\<newline>'' @
     [0xA] @ lit ''1. Query Type: What type of medical information is being '' @
     lit ''requested?\<newline>'' @
     lit ''2. Complexity: How complex is this query?\<newline>'' @
     lit ''3. Required Agents: Which specialized agents would be needed?\<newline>'' @
     lit ''4. Priority: How urgent/important is this query?\<newline>'' @
     lit ''5. Medical Entities: What medical terms, drugs, conditions '' @
     lit ''are mentioned?\<newline>'' @
     [0xA] @ lit ''Available Agent Types (USE ONLY THESE):\<newline>'' @
     lit ''- DrugInformationAgent: Medicine identification, drug facts, '' @
     lit ''mechanisms, general medicine questions\<newline>'' @
     lit ''- InteractionAgent: Drug interactions, contraindications, '' @
     lit ''warnings  \<newline>'' @
     lit ''- DosageAgent: Dosage calculations, administration guidelines\<newline>'' @
     lit ''- SideEffectsAgent: Side effects analysis, risk assessment\<newline>'' @
     lit ''- MedicalDocumentationAgent: Medical documents, prescriptions, '' @
     lit ''certificates, OCR analysis\<newline>'' @
     [0xA] @ lit ''IMPORTANT: Only use the agent names listed above. For general '' @
     lit ''medical questions about symptoms, conditions, or treatments, '' @
     lit ''use DrugInformationAgent. If the query involves reading '' @
     lit ''a document, always include MedicalDocumentationAgent.\<newline>'' @
     [0xA] @ lit ''Query: '' @ [0x22] @ queryText @ [0x22, 0xA, 0xA] @
     lit ''Respond with a JSON object matching this schema:\<newline>'' @
     lit ''{\<newline>'' @
     lit ''  '' @ [0x22] @ lit ''queryType'' @ [0x22] @ lit '': '' @ [0x22] @
     lit ''medicine|drug_interaction|dosage|side_effects|medical_documentation|gene'' @
     lit ''ral'' @ [0x22] @ lit '',\<newline>'' @
     lit ''  '' @ [0x22] @ lit ''complexity'' @ [0x22] @ lit '': '' @ [0x22] @
     lit ''simple|moderate|complex'' @ [0x22] @ lit '',\<newline>'' @
     lit ''  '' @ [0x22] @ lit ''requiredAgents'' @ [0x22] @ lit '': ['' @ [0x22] @
     lit ''AgentName1'' @ [0x22] @ lit '', '' @ [0x22] @ lit ''AgentName2'' @ [0x22] @
     lit ''],\<newline>'' @
     lit ''  '' @ [0x22] @ lit ''priority'' @ [0x22] @ lit '': 1-10,\<newline>'' @
     lit ''  '' @ [0x22] @ lit ''medicalEntities'' @ [0x22] @ lit '': ['' @ [0x22] @
     lit ''entity1'' @ [0x22] @ lit '', '' @ [0x22] @ lit ''entity2'' @ [0x22] @
     lit '']\<newline>'' @
     lit ''}''"

definition fallbackAnalysis :: QueryAnalysis where
  "fallbackAnalysis =
     \<lparr> queryType = medicine, complexity = moderate,
       requiredAgents = [lit ''DrugInformationAgent''], priority = 5, medicalEntities = [] \<rparr>"

definition analyzeQuery ::
  "environment \<Rightarrow> jsstring \<Rightarrow> AgentContext \<Rightarrow> Orchestrator \<Rightarrow> QueryAnalysis \<times> Orchestrator" where
  "analyzeQuery env queryText context orch =
     (let (reply, orch1) =
            callAnalysisLLM env (analysisPrompt queryText) context (logEvent (Enter AnalyzeQuery) orch)
      in (case reply of
            None \<Rightarrow> (fallbackAnalysis, orch1)
          | Some txt \<Rightarrow>
              (case JSON_parse (env_runtime env) txt of
                 None \<Rightarrow> (fallbackAnalysis, orch1)
               | Some j \<Rightarrow>
                   (case QueryAnalysisSchema_parse j of
                      None \<Rightarrow> (fallbackAnalysis, orch1)
                    | Some analysis \<Rightarrow> (analysis, orch1)))))"

subsection \<open>routeToAgents\<close>

definition shouldForceDrugInformationAgent :: "jsstring \<Rightarrow> QueryAnalysis \<Rightarrow> bool" where
  "shouldForceDrugInformationAgent queryText analysis =
     (let normalizedQuery = trim queryText
      in if normalizedQuery = [] then False
         else if queryType analysis = medicine then True
         else if lit ''DrugInformationAgent'' \<in> set (requiredAgents analysis) then True
         else if list_ex (\<lambda>entity. trim entity \<noteq> []) (medicalEntities analysis) then True
         else False)"

definition classificationPrompt :: "jsstring \<Rightarrow> jsstring" where
  "classificationPrompt trimmed =
     lit ''Determine whether the user is asking for personalized medical '' @
     lit ''advice (something they should take, dosage for themselves, '' @
     lit ''or treatment guidance for their specific situation).\<newline>'' @
     [0xA] @ lit ''Query: '' @ [0x22, 0x22, 0x22] @ trimmed @ [0x22, 0x22, 0x22, 0xA, 0xA] @
     lit ''Respond with one of these labels only:\<newline>'' @
     lit ''- MEDICAL_ADVICE\<newline>'' @
     lit ''- OTHER''"

definition isMedicalAdviceRequest ::
  "environment \<Rightarrow> jsstring \<Rightarrow> AgentContext \<Rightarrow> Orchestrator \<Rightarrow> bool \<times> Orchestrator" where
  "isMedicalAdviceRequest env queryText context orch =
     (let trimmed = trim queryText
      in if trimmed = [] then (False, orch)
         else (let (reply, orch1) = callAnalysisLLM env (classificationPrompt trimmed) context orch
               in (case reply of
                     None \<Rightarrow> (False, orch1)
                   | Some txt \<Rightarrow>
                       (let normalized = toUpperCase (trim txt)
                        in (startsWith normalized (lit ''MEDICAL_ADVICE''), orch1)))))"

definition getMedicalAdviceDisclaimer :: "language \<Rightarrow> AgentResponse" where
  "getMedicalAdviceDisclaimer lang =
     \<lparr> agentName = lit ''EducationalSystem'',
       response =
         (case lang of
            urdu \<Rightarrow>
              lit ''**'' @
              [0x26A0, 0xFE0F, 0x20, 0x627, 0x6C1, 0x645, 0x20, 0x627, 0x637, 0x644, 0x627, 0x639] @
              [0x20, 0x26A0, 0xFE0F] @ lit ''**\<newline>'' @
              lit ''    '' @
              [0x6CC, 0x6C1, 0x20, 0x633, 0x633, 0x679, 0x645, 0x20, 0x635, 0x631, 0x641, 0x20] @
              [0x627, 0x62F, 0x648, 0x6CC, 0x627, 0x62A, 0x20, 0x6A9, 0x6CC, 0x20, 0x62A, 0x639] @
              [0x644, 0x6CC, 0x645, 0x6CC, 0x20, 0x645, 0x639, 0x644, 0x648, 0x645, 0x627, 0x62A] @
              [0x20, 0x641, 0x631, 0x627, 0x6C1, 0x645, 0x20, 0x6A9, 0x631, 0x62A, 0x627, 0x20] @
              [0x6C1, 0x6D2, 0x6D4, 0x20, 0x6CC, 0x6C1, 0x20, 0x637, 0x628, 0x6CC, 0x20, 0x645] @
              [0x634, 0x648, 0x631, 0x6C1, 0x60C, 0x20, 0x62A, 0x634, 0x62E, 0x6CC, 0x635, 0x60C] @
              [0x20, 0x6CC, 0x627, 0x20, 0x639, 0x644, 0x627, 0x62C, 0x20, 0x62A, 0x62C, 0x648] @
              [0x6CC, 0x632, 0x20, 0x646, 0x6C1, 0x6CC, 0x6BA, 0x20, 0x6A9, 0x631, 0x62A, 0x627] @
              [0x6D4, 0xA, 0x20, 0x20, 0x20, 0x20, 0xA, 0x20, 0x20, 0x20] @ lit '' **'' @
              [0x628, 0x631, 0x627, 0x6C1, 0x20, 0x6A9, 0x631, 0x645, 0x20, 0x645, 0x634, 0x648] @
              [0x631, 0x6C1, 0x20, 0x644, 0x6CC, 0x6BA] @ lit '':**\<newline>'' @
              lit ''    - '' @
              [0x627, 0x67E, 0x646, 0x6D2, 0x20, 0x644, 0x627, 0x626, 0x633, 0x646, 0x633, 0x20] @
              [0x6CC, 0x627, 0x641, 0x62A, 0x6C1, 0x20, 0x688, 0x627, 0x6A9, 0x679, 0x631, 0x20] @
              [0x633, 0x6D2, 0xA, 0x20, 0x20, 0x20] @ lit '' - '' @
              [0x6A9, 0x633, 0x6CC, 0x20, 0x62A, 0x62C, 0x631, 0x628, 0x6C1, 0x20, 0x6A9, 0x627] @
              [0x631, 0x20, 0x641, 0x627, 0x631, 0x645, 0x627, 0x633, 0x633, 0x679, 0x20, 0x633] @
              [0x6D2, 0xA, 0x20, 0x20, 0x20, 0x20, 0xA, 0x20, 0x20, 0x20] @ lit '' **'' @
              [0x635, 0x62D, 0x62A, 0x20, 0x6A9, 0x6D2, 0x20, 0x645, 0x633, 0x627, 0x626, 0x644] @
              [0x20, 0x6A9, 0x6D2, 0x20, 0x644, 0x6CC, 0x6D2, 0x20, 0x6C1, 0x645, 0x6CC, 0x634] @
              [0x6C1, 0x20, 0x67E, 0x6CC, 0x634, 0x6C1, 0x20, 0x648, 0x631, 0x20, 0x637, 0x628] @
              [0x6CC, 0x20, 0x645, 0x634, 0x648, 0x631, 0x6C1, 0x20, 0x644, 0x6CC, 0x6BA, 0x6D4] @
              lit ''**''
          | english \<Rightarrow>
              lit ''**'' @ [0x26A0, 0xFE0F] @ lit '' IMPORTANT NOTICE '' @ [0x26A0, 0xFE0F] @
              lit ''**\<newline>'' @
              lit ''    This system provides ONLY educational information about '' @
              lit ''medicines. It does NOT provide medical advice, diagnoses, '' @
              lit ''or treatment recommendations.\<newline>'' @
              lit ''    \<newline>'' @
              lit ''    **Please consult with:**\<newline>'' @
              lit ''    - Your licensed healthcare provider\<newline>'' @
              lit ''    - A qualified pharmacist  \<newline>'' @
              lit ''    \<newline>'' @
              lit ''    **For any health concerns, always seek professional '' @
              lit ''medical consultation.**''),
       confidence = 1,
       metadata = Some [(lit ''queryType'', JStr (lit ''rejected_medical_advice''))] \<rparr>"

definition getGeneralFallback :: "language \<Rightarrow> AgentResponse" where
  "getGeneralFallback lang =
     \<lparr> agentName = lit ''EducationalSystem'',
       response =
         (case lang of
            urdu \<Rightarrow>
              [0x6CC, 0x6C1, 0x20, 0x645, 0x639, 0x627, 0x648, 0x646, 0x20, 0x635, 0x631, 0x641] @
              [0x20, 0x645, 0x62E, 0x635, 0x648, 0x635, 0x20, 0x627, 0x62F, 0x648, 0x6CC, 0x627] @
              [0x62A, 0x20, 0x6A9, 0x6D2, 0x20, 0x628, 0x627, 0x631, 0x6D2, 0x20, 0x645, 0x6CC] @
              [0x6BA, 0x20, 0x62A, 0x639, 0x644, 0x6CC, 0x645, 0x6CC, 0x20, 0x645, 0x639, 0x644] @
              [0x648, 0x645, 0x627, 0x62A, 0x20, 0x641, 0x631, 0x627, 0x6C1, 0x645, 0x20, 0x6A9] @
              [0x631, 0x62A, 0x627, 0x20, 0x6C1, 0x6D2, 0x6D4, 0x20, 0x628, 0x631, 0x627, 0x6C1] @
              [0x20, 0x6A9, 0x631, 0x645, 0x20, 0x62F, 0x648, 0x627, 0x20, 0x6A9, 0x627, 0x20] @
              [0x648, 0x627, 0x636, 0x62D, 0x20, 0x646, 0x627, 0x645, 0x20, 0x628, 0x62A, 0x627] @
              [0x626, 0x6CC, 0x6BA, 0x20, 0x62A, 0x627, 0x6A9, 0x6C1, 0x20, 0x645, 0x6CC, 0x6BA] @
              [0x20, 0x648, 0x636, 0x627, 0x62D, 0x62A, 0x20, 0x6A9, 0x631, 0x20, 0x633, 0x6A9] @
              [0x648, 0x6BA, 0x6D4]
          | english \<Rightarrow>
              lit ''This assistant only explains recognised medicines. Please '' @
              lit ''share the exact medicine name you want to learn about.''),
       confidence = 3 / 10,
       metadata = Some [(lit ''queryType'', JStr (lit ''unrecognized_query''))] \<rparr>"

text \<open>\<open>[...new Set(names)]\<close>: each name once, in the order of its first occurrence.\<close>

definition uniq :: "jsstring list \<Rightarrow> jsstring list" where
  "uniq names = foldl (\<lambda>seen n. if n \<in> set seen then seen else seen @ [n]) [] names"

definition hasImage :: "query_input \<Rightarrow> bool" where
  "hasImage input =
     (case input of
        TextInput s \<Rightarrow> False
      | ObjectInput txt img \<Rightarrow> (case img of None \<Rightarrow> False | Some uri \<Rightarrow> uri \<noteq> []))"

definition inputText :: "query_input \<Rightarrow> jsstring" where
  "inputText input =
     (case input of
        TextInput s \<Rightarrow> s
      | ObjectInput txt img \<Rightarrow> orElse txt [])"

text \<open>
  Lines 360-372: \<open>requiredAgentNames\<close> aliases \<open>analysis.requiredAgents\<close>, so the
  \<open>push\<close> changes the analysis itself; the changed analysis is what
  \<open>shouldForceDrugInformationAgent\<close> and the caller see afterwards.
\<close>

definition ensureImageAgent :: "QueryAnalysis \<Rightarrow> query_input \<Rightarrow> QueryAnalysis" where
  "ensureImageAgent analysis input =
     (if hasImage input \<and>
         lit ''MedicalDocumentationAgent'' \<notin> set (requiredAgents analysis) \<and>
         lit ''DrugInformationAgent'' \<notin> set (requiredAgents analysis)
      then analysis\<lparr> requiredAgents := requiredAgents analysis @ [lit ''DrugInformationAgent''] \<rparr>
      else analysis)"

definition validAgents :: "Orchestrator \<Rightarrow> QueryAnalysis \<Rightarrow> jsstring list" where
  "validAgents orch analysis =
     map (\<lambda>agentName. if agents orch agentName \<noteq> None then agentName
                      else lit ''DrugInformationAgent'')
         (uniq (requiredAgents analysis))"

text \<open>
  Lines 385-400: the callback run for one agent name. \<open>None\<close> is \<open>null\<close>: the agent is
  not registered, declines the query, or its \<open>process\<close> throws.
\<close>

definition runAgent ::
  "QueryAnalysis \<Rightarrow> query_input \<Rightarrow> jsstring \<Rightarrow> AgentContext \<Rightarrow> jsstring \<Rightarrow> Orchestrator
     \<Rightarrow> AgentResponse option \<times> Orchestrator" where
  "runAgent analysis input queryText context name orch =
     (let agent = agents orch name;
          handles = (case agent of None \<Rightarrow> False | Some a \<Rightarrow> canHandle a queryText context);
          shouldForce = (name = lit ''DrugInformationAgent'' \<and>
                         shouldForceDrugInformationAgent queryText analysis)
      in (case agent of
            None \<Rightarrow> (None, orch)
          | Some a \<Rightarrow>
              (if handles \<or> shouldForce
               then (process a (trace orch) input context, logEvent (AgentProcess name) orch)
               else (None, orch))))"

text \<open>
  \<open>Promise.all\<close> over the callbacks: one result per agent name, in the order of the
  names. The callbacks are started in that order; the model runs them one after the other.
\<close>

fun runAgents ::
  "QueryAnalysis \<Rightarrow> query_input \<Rightarrow> jsstring \<Rightarrow> AgentContext \<Rightarrow> jsstring list \<Rightarrow> Orchestrator
     \<Rightarrow> AgentResponse option list \<times> Orchestrator" where
  "runAgents analysis input queryText context [] orch = ([], orch)"
| "runAgents analysis input queryText context (name # rest) orch =
     (let (r, orch1) = runAgent analysis input queryText context name orch;
          (rs, orch2) = runAgents analysis input queryText context rest orch1
      in (r # rs, orch2))"

text \<open>Line 403: the results that are not \<open>null\<close> and whose text is not blank.\<close>

definition usable :: "AgentResponse option list \<Rightarrow> AgentResponse list" where
  "usable results =
     concat (map (\<lambda>r. case r of
                         None \<Rightarrow> []
                       | Some a \<Rightarrow> (if trim (response a) \<noteq> [] then [a] else [])) results)"

text \<open>
  \<open>routeToAgents\<close> returns the responses; the analysis, which it may have changed in
  place, is returned with them.
\<close>

definition routeToAgents ::
  "environment \<Rightarrow> QueryAnalysis \<Rightarrow> query_input \<Rightarrow> AgentContext \<Rightarrow> Orchestrator
     \<Rightarrow> (AgentResponse list \<times> QueryAnalysis) \<times> Orchestrator" where
  "routeToAgents env analysis0 input context orch0 =
     (let orch = logEvent (Enter RouteToAgents) orch0;
          analysis = ensureImageAgent analysis0 input;
          names = validAgents orch analysis;
          queryText = inputText input;
          (results, orch1) = runAgents analysis input queryText context names orch;
          responses = usable results
      in if responses = []
         then (let (isDirectAdviceRequest, orch2) = isMedicalAdviceRequest env queryText context orch1;
                   responseTemplate = (if isDirectAdviceRequest
                                       then getMedicalAdviceDisclaimer (language context)
                                       else getGeneralFallback (language context))
               in ((responses @ [responseTemplate], analysis), orch2))
         else ((responses, analysis), orch1))"

subsection \<open>synthesizeResponses\<close>

record Synthesis =
  syn_response :: jsstring
  syn_confidence :: rat
  syn_reasoning :: "jsstring list"

definition joinWith :: "jsstring \<Rightarrow> jsstring list \<Rightarrow> jsstring" where
  "joinWith sep xs = (case xs of [] \<Rightarrow> [] | y # ys \<Rightarrow> foldl (\<lambda>acc x. acc @ sep @ x) y ys)"

definition agentReport :: "runtime \<Rightarrow> AgentResponse \<Rightarrow> jsstring" where
  "agentReport rt r =
     [0xA] @ lit ''--- Report from '' @ agentName r @ lit '' (Confidence: '' @
     jsToString rt (Some (JNum (confidence r * 100))) @ lit ''%) ---\<newline>'' @
     response r"

definition synthesisPrompt :: "runtime \<Rightarrow> AgentResponse list \<Rightarrow> QueryAnalysis \<Rightarrow> AgentContext \<Rightarrow> jsstring" where
  "synthesisPrompt rt agentResponses' analysis context =
     lit ''You are a senior medical assistant. Your job is to synthesize '' @
     lit ''reports from several junior specialist agents into a single, '' @
     lit ''coherent, and comprehensive response for the user.\<newline>'' @
     [0xA] @ lit ''Query Type: '' @ queryTypeName (queryType analysis) @ [0xA] @
     lit ''Language: '' @ languageName (language context) @ [0xA, 0xA] @
     lit ''Agent Reports:\<newline>'' @
     joinWith [0xA, 0xA] (map (agentReport rt) agentResponses') @
     [0xA, 0xA] @ lit ''Your task:\<newline>'' @
     lit ''1.  **Synthesize, Do Not Repeat:** Combine the information '' @
     lit ''logically. Start with the most important information. Do '' @
     lit ''not just list the reports.\<newline>'' @
     lit ''2.  **Remove Redundancy:** The agents may have overlapping '' @
     lit ''information (like disclaimers). Include a comprehensive '' @
     lit ''disclaimer only once at the end.\<newline>'' @
     lit ''3.  **Ensure Natural Flow:** The final response should read '' @
     lit ''as if a single expert wrote it.\<newline>'' @
     lit ''4.  **Maintain Accuracy:** Do not add or invent information '' @
     lit ''not present in the agent reports.\<newline>'' @
     lit ''5.  **Final Response Language:** The entire final response '' @
     lit ''must be in '' @ languageName (language context) @ lit ''.\<newline>'' @
     [0xA] @ lit ''Provide the final synthesized response below:''"

text \<open>\<open>Math.round\<close>: the nearest integer, halves rounded up.\<close>

definition Math_round :: "rat \<Rightarrow> rat" where
  "Math_round x = of_int (floor (x + 1 / 2))"

definition bestResponse :: "AgentResponse \<Rightarrow> AgentResponse list \<Rightarrow> AgentResponse" where
  "bestResponse first others =
     foldl (\<lambda>best current. if confidence current > confidence best then current else best)
       first others"

definition synthesizeResponses ::
  "environment \<Rightarrow> AgentResponse list \<Rightarrow> QueryAnalysis \<Rightarrow> AgentContext \<Rightarrow> Orchestrator
     \<Rightarrow> Synthesis \<times> Orchestrator" where
  "synthesizeResponses env agentResponses' analysis context orch0 =
     (let orch = logEvent (Enter SynthesizeResponses) orch0
      in (case agentResponses' of
            [] \<Rightarrow>
              (\<lparr> syn_response =
                    lit ''I apologize, but I wasn't able to process your '' @
                    queryTypeName (queryType analysis) @
                    lit '' query at this time. Please try rephrasing your question '' @
                    lit ''or contact support.'',
                  syn_confidence = 0,
                  syn_reasoning = [lit ''No agents available to handle this query''] \<rparr>, orch)
          | [r] \<Rightarrow>
              (\<lparr> syn_response = response r,
                  syn_confidence = confidence r,
                  syn_reasoning = [lit ''Single agent response from '' @ agentName r] \<rparr>, orch)
          | r # others \<Rightarrow>
              (let (reply, orch1) =
                     callAnalysisLLM env
                       (synthesisPrompt (env_runtime env) agentResponses' analysis context) context orch
               in (case reply of
                     Some synthesizedResponse \<Rightarrow>
                       (let avgConfidence =
                              foldl (\<lambda>sum a. sum + confidence a) 0 agentResponses' /
                              of_nat (length agentResponses')
                        in (\<lparr> syn_response = synthesizedResponse,
                                syn_confidence = Math_round (avgConfidence * 100) / 100,
                                syn_reasoning =
                                  map (\<lambda>a. lit ''Incorporated '' @ agentName a @ lit '' response'')
                                    agentResponses' \<rparr>, orch1))
                   | None \<Rightarrow>
                       (let best = bestResponse r others
                        in (\<lparr> syn_response = response best,
                                syn_confidence = confidence best,
                                syn_reasoning =
                                  [lit ''Fallback to best single agent response: '' @ agentName best] \<rparr>,
                            orch1))))))"

subsection \<open>updateConversationMemory\<close>

definition updateConversationMemory ::
  "AgentContext \<Rightarrow> QueryAnalysis \<Rightarrow> AgentResponse list \<Rightarrow> Orchestrator \<Rightarrow> Orchestrator" where
  "updateConversationMemory context analysis responses orch0 =
     (let orch = logEvent (Enter UpdateConversationMemory) orch0
      in (case conversationId context of
            None \<Rightarrow> orch
          | Some cid \<Rightarrow>
              (if cid = [] then orch
               else (let conversationHistory =
                           (case conversationMemory orch cid of None \<Rightarrow> [] | Some h \<Rightarrow> h);
                         pushed = conversationHistory @ [context\<lparr> previousResponses := Some responses \<rparr>];
                         kept = (if length pushed > 10 then drop (length pushed - 10) pushed
                                 else pushed)
                     in orch\<lparr> conversationMemory := (conversationMemory orch)(cid \<mapsto> kept) \<rparr>))))"

subsection \<open>processQuery\<close>

definition errorResponse :: OrchestratorResponse where
  "errorResponse =
     \<lparr> primaryResponse =
         lit ''I apologize, but I encountered an error while processing '' @
         lit ''your medical query. Please try rephrasing your question '' @
         lit ''or contact support if the issue persists.'',
       agentResponses = [],
       queryAnalysis =
         \<lparr> queryType = general, complexity = simple, requiredAgents = [],
           priority = 1, medicalEntities = [] \<rparr>,
       overallConfidence = 0,
       reasoning = [lit ''Error occurred during processing''] \<rparr>"

text \<open>
  Step 1 of \<open>processQuery\<close> (lines 244-260). With an image and a registered
  \<open>MedicalDocumentationAgent\<close>, that agent's \<open>process\<close> is awaited outside any inner
  \<open>try\<close>: when it throws (\<open>Inl\<close>), control passes to the \<open>catch\<close> of
  \<open>processQuery\<close>. Otherwise the step yields the query text and the input handed on.
\<close>

definition isOcrResult :: "AgentResponse \<Rightarrow> bool" where
  "isOcrResult r =
     (case metadata r of
        None \<Rightarrow> False
      | Some kvs \<Rightarrow> truthy (map_of kvs (lit ''isOcrResult'')))"

definition ocrStep ::
  "query_input \<Rightarrow> AgentContext \<Rightarrow> Orchestrator
     \<Rightarrow> (js_error + jsstring \<times> query_input) \<times> Orchestrator" where
  "ocrStep input context orch =
     (let queryText = inputText input
      in if hasImage input
         then (case agents orch (lit ''MedicalDocumentationAgent'') of
                 None \<Rightarrow> (Inr (queryText, input), orch)
               | Some docAgent \<Rightarrow>
                   (case process docAgent (trace orch) input context of
                      None \<Rightarrow>
                        (Inl Rejection,
                         logEvent (AgentProcess (lit ''MedicalDocumentationAgent'')) orch)
                    | Some ocrResponse \<Rightarrow>
                        (if confidence ocrResponse > 3 / 10 \<and> isOcrResult ocrResponse
                         then (let combined = queryText @ [0xA, 0xA] @ response ocrResponse
                               in (Inr (combined, TextInput combined),
                                   logEvent (AgentProcess (lit ''MedicalDocumentationAgent'')) orch))
                         else (Inr (queryText, input),
                               logEvent (AgentProcess (lit ''MedicalDocumentationAgent'')) orch))))
         else (Inr (queryText, input), orch))"

text \<open>The body of the \<open>try\<close> block.\<close>

definition processQuery_try ::
  "environment \<Rightarrow> query_input \<Rightarrow> AgentContext \<Rightarrow> Orchestrator
     \<Rightarrow> (js_error + OrchestratorResponse) \<times> Orchestrator" where
  "processQuery_try env input context orch =
     (case ocrStep input context orch of
        (Inl err, orch1) \<Rightarrow> (Inl err, orch1)
      | (Inr (queryText, processedInput), orch1) \<Rightarrow>
          (let (analysis0, orch2) =
                 analyzeQuery env (if queryText = [] then lit ''Image analysis request'' else queryText)
                   context orch1;
               ((responses, analysis), orch3) = routeToAgents env analysis0 processedInput context orch2;
               (finalResponse, orch4) = synthesizeResponses env responses analysis context orch3;
               orch5 = updateConversationMemory context analysis responses orch4
           in (Inr \<lparr> primaryResponse = syn_response finalResponse,
                    agentResponses = responses,
                    queryAnalysis = analysis,
                    overallConfidence = syn_confidence finalResponse,
                    reasoning = syn_reasoning finalResponse \<rparr>, orch5)))"

text \<open>\<open>processQuery\<close>: the \<open>try\<close> block with its \<open>catch\<close>.\<close>

definition processQuery ::
  "environment \<Rightarrow> query_input \<Rightarrow> AgentContext \<Rightarrow> Orchestrator
     \<Rightarrow> OrchestratorResponse \<times> Orchestrator" where
  "processQuery env input context orch =
     (case processQuery_try env input context orch of
        (Inl err, orch1) \<Rightarrow> (errorResponse, orch1)
      | (Inr result, orch1) \<Rightarrow> (result, orch1))"

text \<open>
  A sequence of \<open>processQuery\<close> calls on the same orchestrator, each with its own
  environment, input and context.
\<close>

fun processQueries ::
  "(environment \<times> query_input \<times> AgentContext) list \<Rightarrow> Orchestrator \<Rightarrow> Orchestrator" where
  "processQueries [] orch = orch"
| "processQueries ((env, input, context) # rest) orch =
     processQueries rest (snd (processQuery env input context orch))"

subsection \<open>Reading the trace and the memory\<close>

text \<open>The private methods entered, and the model requests issued, in order.\<close>

definition steps :: "event list \<Rightarrow> step list" where
  "steps evs = concat (map (\<lambda>e. case e of Enter s \<Rightarrow> [s] | _ \<Rightarrow> []) evs)"

definition llmCalls :: "event list \<Rightarrow> GenerateRequest list" where
  "llmCalls evs = concat (map (\<lambda>e. case e of LLMCall q \<Rightarrow> [q] | _ \<Rightarrow> []) evs)"

text \<open>
  What \<open>updateConversationMemory\<close> stores for a conversation whose history was
  \<open>h\<close>, and the number of entries a conversation holds.
\<close>

definition rememberedAs :: "AgentContext \<Rightarrow> AgentResponse list \<Rightarrow> AgentContext list \<Rightarrow> AgentContext list" where
  "rememberedAs context rs h =
     (let pushed = h @ [context\<lparr> previousResponses := Some rs \<rparr>]
      in if length pushed > 10 then drop (length pushed - 10) pushed else pushed)"

definition historyLength :: "Orchestrator \<Rightarrow> jsstring \<Rightarrow> nat" where
  "historyLength orch cid = (case conversationMemory orch cid of None \<Rightarrow> 0 | Some h \<Rightarrow> length h)"

section \<open>The base agent (base-agent.ts)\<close>



section \<open>The drug information agent (drug-information-agent.ts)\<close>

subsection \<open>Regular expressions of the agent, as list functions\<close>
















subsection \<open>sanitizeDrugName\<close>







subsection \<open>parseMedicineProfile\<close>

datatype origin = OriginText | OriginImage | OriginInference

record NormalizedDrugInfo =
  medicineName :: jsstring
  medicineType :: "jsstring option"
  recognizedFrom :: origin
  description :: "jsstring option"
  usage :: "jsstring option"
  sideEffects :: "jsstring list option"
  warnings :: "jsstring list option"
  reliability :: jsstring
  source :: jsstring
  agentsInvolved :: "jsstring list"
  llmResponse :: jsstring







subsection \<open>getDrugInformation\<close>










section \<open>Example data\<close>

text \<open>Concrete contexts, agents and environments on which the theorems are instantiated.\<close>

definition sampleContext :: AgentContext where
  "sampleContext =
     \<lparr> conversationId = Some (lit ''conv_1''), userId = None, language = english,
       previousResponses = Some [], medicalHistory = Some [] \<rparr>"

definition sampleRuntime :: runtime where
  "sampleRuntime = \<lparr> JSON_parse = (\<lambda>s. None), ToString = (\<lambda>v. []) \<rparr>"

definition sampleClient :: OpenRouterClient where
  "sampleClient = OpenRouterClient_new (Some (lit ''sk-or-test'')) None"

definition unconfiguredClient :: OpenRouterClient where
  "unconfiguredClient = OpenRouterClient_new None None"

definition rateLimited :: "HttpRequest \<Rightarrow> fetch_outcome" where
  "rateLimited r =
     FetchResolved \<lparr> ok = False, status = 429, bodyText = lit ''rate limit exceeded'' \<rparr>"

definition sampleRequest :: GenerateRequest where
  "sampleRequest =
     \<lparr> req_prompt = PromptString (lit ''what is panadol''),
       req_system = Some (lit ''You are a pharmacist.''),
       req_model = None,
       req_output = False \<rparr>"




text \<open>An environment in which every model call throws, and one in which it answers.\<close>

definition silentEnv :: environment where
  "silentEnv = \<lparr> env_runtime = sampleRuntime, llm = (\<lambda>tr req. LLMThrows) \<rparr>"


definition panadolResponse :: AgentResponse where
  "panadolResponse =
     \<lparr> agentName = lit ''DrugInformationAgent'',
       response = lit ''Panadol contains paracetamol.'',
       confidence = 8 / 10,
       metadata = None \<rparr>"

definition cannedDrugAgent :: Agent where
  "cannedDrugAgent =
     \<lparr> agent_name = lit ''DrugInformationAgent'',
       canHandle = DrugInformationAgent_canHandle,
       process = (\<lambda>tr i c. Some panadolResponse) \<rparr>"

definition panadolOrchestrator :: Orchestrator where
  "panadolOrchestrator = registerAgent cannedDrugAgent newOrchestrator"

definition panadolQuery :: query_input where
  "panadolQuery = TextInput (lit ''panadol'')"



section \<open>Facts about the string operations\<close>





section \<open>canHandle\<close>





section \<open>The OpenRouter client\<close>



lemma role_distinct: "lit ''system'' \<noteq> lit ''user''"
  by (simp add: lit_def)

lemma isSystemMessage_simps [simp]:
  "isSystemMessage (systemMessage s)" "\<not> isSystemMessage (userMessage c)"
  using role_distinct by (auto simp add: isSystemMessage_def systemMessage_def userMessage_def)

lemma isUserMessage_simps [simp]:
  "isUserMessage (userMessage c)" "\<not> isUserMessage (systemMessage s)"
  using role_distinct by (auto simp add: isUserMessage_def systemMessage_def userMessage_def)







text \<open>\<open>showNat\<close> prints the decimal numeral of its argument.\<close>

lemma showNat_digits: "\<forall>c \<in> set (showNat n). 0x30 \<le> c \<and> c \<le> 0x39"
proof (induction n rule: showNat.induct)
  case (1 n)
  have d: "(0x30 :: jschar) \<le> of_nat (48 + k) \<and> (of_nat (48 + k) :: jschar) \<le> 0x39" if "k < 10" for k
  proof -
    have "k \<in> {0,1,2,3,4,5,6,7,8,9}" using that by auto
    then show ?thesis by auto
  qed
  show ?case
  proof (cases "n < 10")
    case True
    then show ?thesis using d [of n] by (subst showNat.simps) simp
  next
    case False
    then show ?thesis
      using 1 d [of "n mod 10"] by (subst showNat.simps) auto
  qed
qed

lemma digitValue_of_nat: "k < 10 \<Longrightarrow> digitValue (of_nat (48 + k)) = k"
proof -
  assume "k < 10"
  then have "k \<in> {0,1,2,3,4,5,6,7,8,9}" by auto
  then show ?thesis by (auto simp add: digitValue_def)
qed

lemma showNat_value: "foldl (\<lambda>acc c. 10 * acc + digitValue c) 0 (showNat n) = n"
proof (induction n rule: showNat.induct)
  case (1 n)
  show ?case
  proof (cases "n < 10")
    case True
    then show ?thesis using digitValue_of_nat [of n] by (subst showNat.simps) simp
  next
    case False
    then show ?thesis
      using 1 digitValue_of_nat [of "n mod 10"] by (subst showNat.simps) simp
  qed
qed

text \<open>
  C6 (amended). \<open>generate\<close> performs no retry and no backoff: a call issues at most one
  HTTP request. Without an API key it issues none and throws the configuration error;
  with a key it issues exactly one. When the response to that request is not OK, the
  call throws an error whose message holds the status code and the response body.
\<close>

theorem generate_single_request:
  "(apiKey client = [] \<longrightarrow>
      generate rt fetch client request =
        ([], Inl (Error (lit ''OpenRouter API key not configured. Please add OPENROUTER_API_KEY'' @
                         lit '' to your environment variables.'')))) \<and>
   (apiKey client \<noteq> [] \<longrightarrow>
      fst (generate rt fetch client request) = [generate_request client request]) \<and>
   (apiKey client \<noteq> [] \<and> fetch (generate_request client request) = FetchResolved resp \<and> \<not> ok resp \<longrightarrow>
      snd (generate rt fetch client request) =
        Inl (Error (lit ''OpenRouter API error: '' @ showNat (status resp) @ lit '' - '' @ bodyText resp)))"
  by (simp add: generate_def Let_def split: fetch_outcome.split)

text \<open>The theorem at a request answered with status 429.\<close>

theorem generate_single_request_witness:
  "apiKey sampleClient \<noteq> [] \<and>
   length (fst (generate sampleRuntime rateLimited sampleClient sampleRequest)) = 1 \<and>
   snd (generate sampleRuntime rateLimited sampleClient sampleRequest) =
     Inl (Error (lit ''OpenRouter API error: 429 - rate limit exceeded''))"
proof -
  have key: "apiKey sampleClient \<noteq> []"
    by (simp add: sampleClient_def OpenRouterClient_new_def orElse_def lit_def)
  have resp: "rateLimited (generate_request sampleClient sampleRequest) =
      FetchResolved \<lparr> ok = False, status = 429, bodyText = lit ''rate limit exceeded'' \<rparr>"
    by (simp add: rateLimited_def)
  have digits: "showNat 429 = lit ''429''"
    by (simp add: showNat.simps lit_def)
  from generate_single_request [of sampleClient sampleRuntime rateLimited sampleRequest
      "\<lparr> ok = False, status = 429, bodyText = lit ''rate limit exceeded'' \<rparr>"] key resp
  have "fst (generate sampleRuntime rateLimited sampleClient sampleRequest) =
          [generate_request sampleClient sampleRequest]"
    and "snd (generate sampleRuntime rateLimited sampleClient sampleRequest) =
          Inl (Error (lit ''OpenRouter API error: '' @ showNat 429 @ lit '' - '' @
                      lit ''rate limit exceeded''))"
    by simp_all
  then show ?thesis using key digits by (simp add: lit_def)
qed

text \<open>
  C6 as stated fails: without a configured API key a call of \<open>generate\<close> issues no HTTP
  request at all.
\<close>

theorem generate_no_request_counterexample:
  "generate sampleRuntime rateLimited unconfiguredClient sampleRequest =
     ([], Inl (Error (lit ''OpenRouter API key not configured. Please add OPENROUTER_API_KEY'' @
                      lit '' to your environment variables.'')))"
  by (simp add: generate_def unconfiguredClient_def OpenRouterClient_new_def orElse_def)


section \<open>The orchestrator: what each method leaves unchanged\<close>

lemma lit_eq_Nil [simp]: "lit s = [] \<longleftrightarrow> s = []"
  by (simp add: lit_def)

lemma steps_append [simp]: "steps (xs @ ys) = steps xs @ steps ys"
  by (simp add: steps_def)

lemma steps_simps [simp]:
  "steps [] = []" "steps [Enter s] = [s]" "steps [LLMCall q] = []" "steps [AgentProcess n] = []"
  by (simp_all add: steps_def)

lemma logEvent_fields [simp]:
  "agents (logEvent e orch) = agents orch"
  "conversationMemory (logEvent e orch) = conversationMemory orch"
  "trace (logEvent e orch) = trace orch @ [e]"
  by (simp_all add: logEvent_def)

lemma callAnalysisLLM_fields:
  "agents (snd (callAnalysisLLM env p ctx orch)) = agents orch"
  "conversationMemory (snd (callAnalysisLLM env p ctx orch)) = conversationMemory orch"
  "steps (trace (snd (callAnalysisLLM env p ctx orch))) = steps (trace orch)"
  by (simp_all add: callAnalysisLLM_def Let_def split: llm_outcome.split)

lemma analyzeQuery_fields:
  "agents (snd (analyzeQuery env q ctx orch)) = agents orch"
  "conversationMemory (snd (analyzeQuery env q ctx orch)) = conversationMemory orch"
  "steps (trace (snd (analyzeQuery env q ctx orch))) = steps (trace orch) @ [AnalyzeQuery]"
  using callAnalysisLLM_fields [of env "analysisPrompt q" ctx "logEvent (Enter AnalyzeQuery) orch"]
  by (auto simp add: analyzeQuery_def Let_def split: prod.splits option.splits)

lemma isMedicalAdviceRequest_fields:
  "agents (snd (isMedicalAdviceRequest env q ctx orch)) = agents orch"
  "conversationMemory (snd (isMedicalAdviceRequest env q ctx orch)) = conversationMemory orch"
  "steps (trace (snd (isMedicalAdviceRequest env q ctx orch))) = steps (trace orch)"
  using callAnalysisLLM_fields [of env "classificationPrompt (trim q)" ctx orch]
  by (auto simp add: isMedicalAdviceRequest_def Let_def split: prod.splits option.splits)

lemma runAgent_fields:
  "agents (snd (runAgent a i q ctx n orch)) = agents orch"
  "conversationMemory (snd (runAgent a i q ctx n orch)) = conversationMemory orch"
  "steps (trace (snd (runAgent a i q ctx n orch))) = steps (trace orch)"
  by (auto simp add: runAgent_def Let_def split: option.splits)

lemma runAgents_fields:
  "agents (snd (runAgents a i q ctx ns orch)) = agents orch \<and>
   conversationMemory (snd (runAgents a i q ctx ns orch)) = conversationMemory orch \<and>
   steps (trace (snd (runAgents a i q ctx ns orch))) = steps (trace orch)"
proof (induction ns arbitrary: orch)
  case Nil
  then show ?case by simp
next
  case (Cons n ns)
  show ?case
    using Cons.IH [of "snd (runAgent a i q ctx n orch)"] runAgent_fields [of a i q ctx n orch]
    by (simp add: Let_def case_prod_beta)
qed

lemma runAgents_length: "length (fst (runAgents a i q ctx ns orch)) = length ns"
  by (induction ns arbitrary: orch) (simp_all add: Let_def case_prod_beta)


lemma routeToAgents_fields:
  "agents (snd (routeToAgents env a i ctx orch)) = agents orch"
  "conversationMemory (snd (routeToAgents env a i ctx orch)) = conversationMemory orch"
  "steps (trace (snd (routeToAgents env a i ctx orch))) = steps (trace orch) @ [RouteToAgents]"
  using runAgents_fields isMedicalAdviceRequest_fields
  by (simp_all add: routeToAgents_def Let_def case_prod_beta)

lemma synthesizeResponses_fields:
  "agents (snd (synthesizeResponses env rs a ctx orch)) = agents orch"
  "conversationMemory (snd (synthesizeResponses env rs a ctx orch)) = conversationMemory orch"
  "steps (trace (snd (synthesizeResponses env rs a ctx orch))) = steps (trace orch) @ [SynthesizeResponses]"
  using callAnalysisLLM_fields
  by (simp_all add: synthesizeResponses_def Let_def case_prod_beta split: list.split option.split)

lemma updateConversationMemory_fields:
  "agents (updateConversationMemory ctx a rs orch) = agents orch"
  "steps (trace (updateConversationMemory ctx a rs orch)) = steps (trace orch) @ [UpdateConversationMemory]"
  by (simp_all add: updateConversationMemory_def Let_def split: option.split)

lemma ocrStep_fields:
  "agents (snd (ocrStep i ctx orch)) = agents orch"
  "conversationMemory (snd (ocrStep i ctx orch)) = conversationMemory orch"
  "steps (trace (snd (ocrStep i ctx orch))) = steps (trace orch)"
  by (simp_all add: ocrStep_def Let_def split: option.split)


section \<open>The pipeline of processQuery\<close>

lemma processQuery_try_unfold:
  assumes "ocrStep input ctx orch = (Inr (queryText, processedInput), orch1)"
    and "analyzeQuery env (if queryText = [] then lit ''Image analysis request'' else queryText)
           ctx orch1 = (analysis0, orch2)"
    and "routeToAgents env analysis0 processedInput ctx orch2 = ((responses, analysis), orch3)"
    and "synthesizeResponses env responses analysis ctx orch3 = (final, orch4)"
  shows "processQuery_try env input ctx orch =
           (Inr \<lparr> primaryResponse = syn_response final,
                   agentResponses = responses,
                   queryAnalysis = analysis,
                   overallConfidence = syn_confidence final,
                   reasoning = syn_reasoning final \<rparr>,
            updateConversationMemory ctx analysis responses orch4)"
  using assms by (simp add: processQuery_try_def Let_def)

lemma processQuery_try_error:
  "ocrStep input ctx orch = (Inl err, orch1) \<Longrightarrow>
     processQuery_try env input ctx orch = (Inl err, orch1)"
  by (simp add: processQuery_try_def)

lemma pipeline_steps:
  assumes "ocrStep input ctx orch = (Inr (queryText, processedInput), orch1)"
    and "analyzeQuery env (if queryText = [] then lit ''Image analysis request'' else queryText)
           ctx orch1 = (analysis0, orch2)"
    and "routeToAgents env analysis0 processedInput ctx orch2 = ((responses, analysis), orch3)"
    and "synthesizeResponses env responses analysis ctx orch3 = (final, orch4)"
  shows "steps (trace (updateConversationMemory ctx analysis responses orch4)) =
           steps (trace orch) @
             [AnalyzeQuery, RouteToAgents, SynthesizeResponses, UpdateConversationMemory]"
proof -
  have s1: "steps (trace orch1) = steps (trace orch)"
    using ocrStep_fields(3) [of input ctx orch] assms(1) by simp
  have s2: "steps (trace orch2) = steps (trace orch1) @ [AnalyzeQuery]"
    using analyzeQuery_fields(3) assms(2) by (metis snd_conv)
  have s3: "steps (trace orch3) = steps (trace orch2) @ [RouteToAgents]"
    using routeToAgents_fields(3) [of env analysis0 processedInput ctx orch2] assms(3) by simp
  have s4: "steps (trace orch4) = steps (trace orch3) @ [SynthesizeResponses]"
    using synthesizeResponses_fields(3) [of env responses analysis ctx orch3] assms(4) by simp
  show ?thesis
    using s1 s2 s3 s4 by (simp add: updateConversationMemory_fields)
qed




text \<open>
  When the registered documentation agent never rejects (the repository's
  MedicalDocumentationAgent catches every error of its own), step 1 cannot throw and the
  pipeline runs on every query.
\<close>

lemma ocrStep_total:
  assumes "\<forall>a. agents orch (lit ''MedicalDocumentationAgent'') = Some a \<longrightarrow>
             process a (trace orch) input ctx \<noteq> None"
  shows "\<exists>queryText processedInput orch1.
           ocrStep input ctx orch = (Inr (queryText, processedInput), orch1)"
  using assms by (auto simp add: ocrStep_def Let_def split: option.splits)

lemma processQuery_runs_pipeline:
  assumes "\<forall>a. agents orch (lit ''MedicalDocumentationAgent'') = Some a \<longrightarrow>
             process a (trace orch) input ctx \<noteq> None"
  shows "steps (trace (snd (processQuery env input ctx orch))) =
           steps (trace orch) @
             [AnalyzeQuery, RouteToAgents, SynthesizeResponses, UpdateConversationMemory] \<and>
         (\<exists>orch3. primaryResponse (fst (processQuery env input ctx orch)) =
            syn_response (fst (synthesizeResponses env
              (agentResponses (fst (processQuery env input ctx orch)))
              (queryAnalysis (fst (processQuery env input ctx orch))) ctx orch3)))"
proof -
  obtain queryText processedInput orch1 where
    o: "ocrStep input ctx orch = (Inr (queryText, processedInput), orch1)"
    using ocrStep_total [OF assms] by blast
  obtain analysis0 orch2 where a: "analyzeQuery env
      (if queryText = [] then lit ''Image analysis request'' else queryText) ctx orch1 = (analysis0, orch2)"
    by (cases "analyzeQuery env
      (if queryText = [] then lit ''Image analysis request'' else queryText) ctx orch1")
  obtain responses analysis orch3 where
    r: "routeToAgents env analysis0 processedInput ctx orch2 = ((responses, analysis), orch3)"
    by (cases "routeToAgents env analysis0 processedInput ctx orch2") auto
  obtain final orch4 where
    f: "synthesizeResponses env responses analysis ctx orch3 = (final, orch4)"
    by (cases "synthesizeResponses env responses analysis ctx orch3")
  have p: "processQuery env input ctx orch =
      (\<lparr> primaryResponse = syn_response final, agentResponses = responses,
          queryAnalysis = analysis, overallConfidence = syn_confidence final,
          reasoning = syn_reasoning final \<rparr>,
       updateConversationMemory ctx analysis responses orch4)"
    using processQuery_try_unfold [OF o a r f] by (simp add: processQuery_def)
  have "primaryResponse (fst (processQuery env input ctx orch)) =
            syn_response (fst (synthesizeResponses env
              (agentResponses (fst (processQuery env input ctx orch)))
              (queryAnalysis (fst (processQuery env input ctx orch))) ctx orch3))"
    using p f by simp
  then show ?thesis
    using pipeline_steps [OF o a r f] p by auto
qed






section \<open>A single agent response\<close>

lemma llmCalls_append [simp]: "llmCalls (xs @ ys) = llmCalls xs @ llmCalls ys"
  by (simp add: llmCalls_def)

lemma llmCalls_simps [simp]:
  "llmCalls [] = []" "llmCalls [Enter s] = []" "llmCalls [LLMCall q] = [q]" "llmCalls [AgentProcess n] = []"
  by (simp_all add: llmCalls_def)

lemma synthesize_single:
  "synthesizeResponses env [r] analysis ctx orch =
     (\<lparr> syn_response = response r, syn_confidence = confidence r,
        syn_reasoning = [lit ''Single agent response from '' @ agentName r] \<rparr>,
      logEvent (Enter SynthesizeResponses) orch)"
  by (simp add: synthesizeResponses_def Let_def)

lemma processQuery_try_cases:
  "(\<exists>err orch1. ocrStep input ctx orch = (Inl err, orch1) \<and>
        processQuery_try env input ctx orch = (Inl err, orch1)) \<or>
   (\<exists>queryText processedInput orch1 analysis0 orch2 responses analysis orch3 final orch4.
        ocrStep input ctx orch = (Inr (queryText, processedInput), orch1) \<and>
        analyzeQuery env (if queryText = [] then lit ''Image analysis request'' else queryText)
           ctx orch1 = (analysis0, orch2) \<and>
        routeToAgents env analysis0 processedInput ctx orch2 = ((responses, analysis), orch3) \<and>
        synthesizeResponses env responses analysis ctx orch3 = (final, orch4) \<and>
        processQuery_try env input ctx orch =
           (Inr \<lparr> primaryResponse = syn_response final,
                   agentResponses = responses,
                   queryAnalysis = analysis,
                   overallConfidence = syn_confidence final,
                   reasoning = syn_reasoning final \<rparr>,
            updateConversationMemory ctx analysis responses orch4))"
proof (cases "ocrStep input ctx orch")
  case (Pair res orch1)
  show ?thesis
  proof (cases res)
    case (Inl err)
    with Pair show ?thesis using processQuery_try_error by blast
  next
    case (Inr p)
    obtain queryText processedInput where p: "p = (queryText, processedInput)" by (cases p)
    obtain analysis0 orch2 where a: "analyzeQuery env
        (if queryText = [] then lit ''Image analysis request'' else queryText) ctx orch1 = (analysis0, orch2)"
      by (cases "analyzeQuery env
        (if queryText = [] then lit ''Image analysis request'' else queryText) ctx orch1")
    obtain responses analysis orch3 where
      r: "routeToAgents env analysis0 processedInput ctx orch2 = ((responses, analysis), orch3)"
      by (cases "routeToAgents env analysis0 processedInput ctx orch2") auto
    obtain final orch4 where
      f: "synthesizeResponses env responses analysis ctx orch3 = (final, orch4)"
      by (cases "synthesizeResponses env responses analysis ctx orch3")
    have o: "ocrStep input ctx orch = (Inr (queryText, processedInput), orch1)"
      using Pair Inr p by simp
    from processQuery_try_unfold [OF o a r f] o a r f show ?thesis by blast
  qed
qed

text \<open>
  C9. With exactly one agent response, \<open>synthesizeResponses\<close> returns that response's
  text and confidence unchanged and issues no model call; so whenever \<open>processQuery\<close>
  returns exactly one agent response, its \<open>primaryResponse\<close> and confidence are those
  of that response.
\<close>

theorem single_response_verbatim:
  "synthesizeResponses env [r] analysis ctx orch =
     (\<lparr> syn_response = response r, syn_confidence = confidence r,
        syn_reasoning = [lit ''Single agent response from '' @ agentName r] \<rparr>,
      logEvent (Enter SynthesizeResponses) orch) \<and>
   llmCalls (trace (snd (synthesizeResponses env [r] analysis ctx orch))) = llmCalls (trace orch) \<and>
   (agentResponses (fst (processQuery env input ctx orch)) = [r] \<longrightarrow>
      primaryResponse (fst (processQuery env input ctx orch)) = response r \<and>
      overallConfidence (fst (processQuery env input ctx orch)) = confidence r)"
proof -
  have "agentResponses (fst (processQuery env input ctx orch)) = [r] \<Longrightarrow>
      primaryResponse (fst (processQuery env input ctx orch)) = response r \<and>
      overallConfidence (fst (processQuery env input ctx orch)) = confidence r"
    using processQuery_try_cases [of input ctx orch env]
    by (auto simp add: processQuery_def errorResponse_def synthesize_single)
  then show ?thesis by (simp add: synthesize_single)
qed


section \<open>A concrete run: the query "panadol"\<close>

lemma ocrStep_text: "ocrStep (TextInput s) ctx orch = (Inr (s, TextInput s), orch)"
  by (simp add: ocrStep_def hasImage_def inputText_def Let_def)

lemma callAnalysisLLM_silent:
  "fst (callAnalysisLLM silentEnv p ctx orch) = None"
  by (simp add: callAnalysisLLM_def silentEnv_def Let_def)

lemma analyzeQuery_silent:
  "fst (analyzeQuery silentEnv q ctx orch) = fallbackAnalysis"
  using callAnalysisLLM_silent [of "analysisPrompt q" ctx "logEvent (Enter AnalyzeQuery) orch"]
  by (simp add: analyzeQuery_def Let_def case_prod_beta)

lemma panadol_agents:
  "agents orch = agents panadolOrchestrator \<Longrightarrow>
     agents orch (lit ''DrugInformationAgent'') = Some cannedDrugAgent"
  by (simp add: panadolOrchestrator_def registerAgent_def cannedDrugAgent_def)

lemma panadol_route:
  assumes "agents orch = agents panadolOrchestrator"
  shows "fst (routeToAgents silentEnv fallbackAnalysis panadolQuery sampleContext orch) =
           ([panadolResponse], fallbackAnalysis)"
proof -
  have e: "ensureImageAgent fallbackAnalysis panadolQuery = fallbackAnalysis"
    by (simp add: ensureImageAgent_def panadolQuery_def hasImage_def)
  have v: "validAgents (logEvent (Enter RouteToAgents) orch) fallbackAnalysis =
             [lit ''DrugInformationAgent'']"
    using panadol_agents [OF assms]
    by (simp add: validAgents_def uniq_def fallbackAnalysis_def)
  have h: "DrugInformationAgent_canHandle (lit ''panadol'') sampleContext"
    by (simp add: DrugInformationAgent_canHandle_def trim_def isWhiteSpace_def lit_def)
  have r: "fst (runAgent fallbackAnalysis panadolQuery (lit ''panadol'') sampleContext
             (lit ''DrugInformationAgent'') (logEvent (Enter RouteToAgents) orch)) =
           Some panadolResponse"
    using panadol_agents [OF assms] h
    by (simp add: runAgent_def Let_def cannedDrugAgent_def)
  have u: "usable [Some panadolResponse] = [panadolResponse]"
    by (simp add: usable_def panadolResponse_def trim_def isWhiteSpace_def lit_def)
  show ?thesis
    using e v r u
    by (simp add: routeToAgents_def Let_def case_prod_beta panadolQuery_def inputText_def)
qed


lemma panadol_analyze:
  "analyzeQuery silentEnv (if lit ''panadol'' = [] then lit ''Image analysis request'' else lit ''panadol'')
     sampleContext panadolOrchestrator =
   (fallbackAnalysis, snd (analyzeQuery silentEnv (lit ''panadol'') sampleContext panadolOrchestrator))"
  using analyzeQuery_silent [of "lit ''panadol''" sampleContext panadolOrchestrator]
  by (simp add: prod_eq_iff)

lemma panadol_route_state:
  "routeToAgents silentEnv fallbackAnalysis panadolQuery sampleContext
     (snd (analyzeQuery silentEnv (lit ''panadol'') sampleContext panadolOrchestrator)) =
   (([panadolResponse], fallbackAnalysis),
    snd (routeToAgents silentEnv fallbackAnalysis panadolQuery sampleContext
      (snd (analyzeQuery silentEnv (lit ''panadol'') sampleContext panadolOrchestrator))))"
  using panadol_route [of "snd (analyzeQuery silentEnv (lit ''panadol'') sampleContext panadolOrchestrator)"]
  by (simp add: prod_eq_iff analyzeQuery_fields)

lemma panadol_result:
  "fst (processQuery silentEnv panadolQuery sampleContext panadolOrchestrator) =
     \<lparr> primaryResponse = response panadolResponse,
       agentResponses = [panadolResponse],
       queryAnalysis = fallbackAnalysis,
       overallConfidence = confidence panadolResponse,
       reasoning = [lit ''Single agent response from '' @ agentName panadolResponse] \<rparr>"
  using processQuery_try_unfold [OF ocrStep_text [of "lit ''panadol''" sampleContext panadolOrchestrator,
        folded panadolQuery_def] panadol_analyze panadol_route_state synthesize_single]
  by (simp add: processQuery_def)


text \<open>The single-response theorem at the same query.\<close>

theorem single_response_verbatim_witness:
  "agentResponses (fst (processQuery silentEnv panadolQuery sampleContext panadolOrchestrator)) =
     [panadolResponse] \<and>
   primaryResponse (fst (processQuery silentEnv panadolQuery sampleContext panadolOrchestrator)) =
     lit ''Panadol contains paracetamol.'' \<and>
   overallConfidence (fst (processQuery silentEnv panadolQuery sampleContext panadolOrchestrator)) =
     8 / 10"
proof -
  have one: "agentResponses (fst (processQuery silentEnv panadolQuery sampleContext panadolOrchestrator)) =
     [panadolResponse]"
    by (simp add: panadol_result)
  from single_response_verbatim [of silentEnv panadolResponse fallbackAnalysis sampleContext
      panadolOrchestrator panadolQuery] one
  have "primaryResponse (fst (processQuery silentEnv panadolQuery sampleContext panadolOrchestrator)) =
          response panadolResponse"
    and "overallConfidence (fst (processQuery silentEnv panadolQuery sampleContext panadolOrchestrator)) =
          confidence panadolResponse"
    by blast+
  then show ?thesis using one by (simp add: panadolResponse_def)
qed



section \<open>routeToAgents\<close>








section \<open>The conversation memory\<close>

lemma rememberedAs_length: "length (rememberedAs ctx rs h) = min 10 (Suc (length h))"
  by (simp add: rememberedAs_def Let_def)

lemma updateConversationMemory_memory:
  "conversationMemory (updateConversationMemory ctx a rs orch) =
     (case conversationId ctx of
        None \<Rightarrow> conversationMemory orch
      | Some cid \<Rightarrow>
          (if cid = [] then conversationMemory orch
           else (conversationMemory orch)
                  (cid \<mapsto> rememberedAs ctx rs
                            (case conversationMemory orch cid of None \<Rightarrow> [] | Some h \<Rightarrow> h))))"
  by (simp add: updateConversationMemory_def rememberedAs_def Let_def split: option.split)

lemma processQuery_memory:
  "conversationMemory (snd (processQuery env input ctx orch)) = conversationMemory orch \<or>
   (\<exists>cid rs. conversationId ctx = Some cid \<and> cid \<noteq> [] \<and>
      conversationMemory (snd (processQuery env input ctx orch)) =
        (conversationMemory orch)
          (cid \<mapsto> rememberedAs ctx rs
                    (case conversationMemory orch cid of None \<Rightarrow> [] | Some h \<Rightarrow> h)))"
proof -
  consider (err) e orch1 where "ocrStep input ctx orch = (Inl e, orch1)"
      "processQuery_try env input ctx orch = (Inl e, orch1)"
    | (ok) queryText processedInput orch1 analysis0 orch2 responses analysis orch3 final orch4
      where "ocrStep input ctx orch = (Inr (queryText, processedInput), orch1)"
        "analyzeQuery env (if queryText = [] then lit ''Image analysis request'' else queryText)
           ctx orch1 = (analysis0, orch2)"
        "routeToAgents env analysis0 processedInput ctx orch2 = ((responses, analysis), orch3)"
        "synthesizeResponses env responses analysis ctx orch3 = (final, orch4)"
        "processQuery_try env input ctx orch =
           (Inr \<lparr> primaryResponse = syn_response final,
                   agentResponses = responses,
                   queryAnalysis = analysis,
                   overallConfidence = syn_confidence final,
                   reasoning = syn_reasoning final \<rparr>,
            updateConversationMemory ctx analysis responses orch4)"
    using processQuery_try_cases [of input ctx orch env] by blast
  then show ?thesis
  proof cases
    case err
    have "conversationMemory orch1 = conversationMemory orch"
      using ocrStep_fields(2) [of input ctx orch] err(1) by simp
    then show ?thesis using err(2) by (simp add: processQuery_def)
  next
    case ok
    have m1: "conversationMemory orch1 = conversationMemory orch"
      using ocrStep_fields(2) [of input ctx orch] ok(1) by simp
    have m2: "conversationMemory orch2 = conversationMemory orch1"
      using analyzeQuery_fields(2) ok(2) by (metis snd_conv)
    have m3: "conversationMemory orch3 = conversationMemory orch2"
      using routeToAgents_fields(2) [of env analysis0 processedInput ctx orch2] ok(3) by simp
    have m4: "conversationMemory orch4 = conversationMemory orch3"
      using synthesizeResponses_fields(2) [of env responses analysis ctx orch3] ok(4) by simp
    have "snd (processQuery env input ctx orch) = updateConversationMemory ctx analysis responses orch4"
      using ok(5) by (simp add: processQuery_def)
    then show ?thesis
      using m1 m2 m3 m4
      by (auto simp add: updateConversationMemory_memory split: option.split)
  qed
qed

lemma processQuery_bounded:
  assumes "\<forall>cid h. conversationMemory orch cid = Some h \<longrightarrow> length h \<le> 10"
  shows "\<forall>cid h. conversationMemory (snd (processQuery env input ctx orch)) cid = Some h \<longrightarrow>
           length h \<le> 10"
  using processQuery_memory [of env input ctx orch] assms
  by (auto simp add: rememberedAs_length split: if_splits)

lemma processQueries_bounded:
  "\<forall>cid h. conversationMemory orch cid = Some h \<longrightarrow> length h \<le> 10 \<Longrightarrow>
   \<forall>cid h. conversationMemory (processQueries qs orch) cid = Some h \<longrightarrow> length h \<le> 10"
proof (induction qs arbitrary: orch)
  case Nil
  then show ?case by simp
next
  case (Cons q qs)
  obtain env input ctx where q: "q = (env, input, ctx)" by (cases q)
  show ?case
    using Cons.IH [OF processQuery_bounded [OF Cons.prems, of env input ctx]] q by simp
qed

lemma processQuery_no_conversationId:
  "conversationId ctx = None \<Longrightarrow>
     conversationMemory (snd (processQuery env input ctx orch)) = conversationMemory orch"
  using processQuery_memory [of env input ctx orch] by auto

text \<open>
  C8. Starting from an orchestrator whose conversation memory is empty, after any
  sequence of \<open>processQuery\<close> calls every conversation holds at most 10 context
  entries; and a query whose context carries no \<open>conversationId\<close> leaves the memory
  unchanged.
\<close>

theorem conversationMemory_at_most_ten:
  "(conversationMemory orch0 = Map.empty \<longrightarrow>
      (\<forall>cid h. conversationMemory (processQueries qs orch0) cid = Some h \<longrightarrow> length h \<le> 10)) \<and>
   (conversationId ctx = None \<longrightarrow>
      conversationMemory (snd (processQuery env input ctx orch)) = conversationMemory orch)"
  using processQueries_bounded [of orch0 qs] processQuery_no_conversationId [of ctx env input orch]
  by simp


lemma processQuery_text_memory:
  assumes "conversationId ctx = Some cid" and "cid \<noteq> []"
  shows "\<exists>rs. conversationMemory (snd (processQuery env (TextInput s) ctx orch)) =
           (conversationMemory orch)
             (cid \<mapsto> rememberedAs ctx rs
                       (case conversationMemory orch cid of None \<Rightarrow> [] | Some h \<Rightarrow> h))"
proof -
  obtain analysis0 orch2 where a: "analyzeQuery env
      (if s = [] then lit ''Image analysis request'' else s) ctx orch = (analysis0, orch2)"
    by (cases "analyzeQuery env (if s = [] then lit ''Image analysis request'' else s) ctx orch")
  obtain responses analysis orch3 where
    r: "routeToAgents env analysis0 (TextInput s) ctx orch2 = ((responses, analysis), orch3)"
    by (cases "routeToAgents env analysis0 (TextInput s) ctx orch2") auto
  obtain final orch4 where
    f: "synthesizeResponses env responses analysis ctx orch3 = (final, orch4)"
    by (cases "synthesizeResponses env responses analysis ctx orch3")
  have m2: "conversationMemory orch2 = conversationMemory orch"
    using analyzeQuery_fields(2) a by (metis snd_conv)
  have m3: "conversationMemory orch3 = conversationMemory orch2"
    using routeToAgents_fields(2) [of env analysis0 "TextInput s" ctx orch2] r by simp
  have m4: "conversationMemory orch4 = conversationMemory orch3"
    using synthesizeResponses_fields(2) [of env responses analysis ctx orch3] f by simp
  have "snd (processQuery env (TextInput s) ctx orch) =
          updateConversationMemory ctx analysis responses orch4"
    using processQuery_try_unfold [OF ocrStep_text a r f] by (simp add: processQuery_def)
  then have "conversationMemory (snd (processQuery env (TextInput s) ctx orch)) =
           (conversationMemory orch)
             (cid \<mapsto> rememberedAs ctx responses
                       (case conversationMemory orch cid of None \<Rightarrow> [] | Some h \<Rightarrow> h))"
    using assms m2 m3 m4 by (simp add: updateConversationMemory_memory)
  then show ?thesis by blast
qed

lemma processQuery_text_historyLength:
  assumes "conversationId ctx = Some cid" and "cid \<noteq> []"
  shows "historyLength (snd (processQuery env (TextInput s) ctx orch)) cid =
           min 10 (Suc (historyLength orch cid))"
proof -
  obtain rs where "conversationMemory (snd (processQuery env (TextInput s) ctx orch)) =
           (conversationMemory orch)
             (cid \<mapsto> rememberedAs ctx rs
                       (case conversationMemory orch cid of None \<Rightarrow> [] | Some h \<Rightarrow> h))"
    using processQuery_text_memory [OF assms] by blast
  then show ?thesis
    by (simp add: historyLength_def rememberedAs_length split: option.split)
qed

lemma processQueries_text_historyLength:
  assumes "conversationId ctx = Some cid" and "cid \<noteq> []"
  shows "historyLength orch cid \<le> 10 \<Longrightarrow>
         historyLength (processQueries (replicate n (env, TextInput s, ctx)) orch) cid =
           min 10 (n + historyLength orch cid)"
proof (induction n arbitrary: orch)
  case 0
  then show ?case by simp
next
  case (Suc n)
  have step: "historyLength (snd (processQuery env (TextInput s) ctx orch)) cid =
                min 10 (Suc (historyLength orch cid))"
    using processQuery_text_historyLength [OF assms] .
  then have "historyLength (snd (processQuery env (TextInput s) ctx orch)) cid \<le> 10" by simp
  from Suc.IH [OF this] step show ?case by (simp add: min_def)
qed

text \<open>
  The theorem after eleven queries in the conversation \<open>conv_1\<close>: the memory of
  that conversation holds exactly ten entries.
\<close>

theorem conversationMemory_at_most_ten_witness:
  "\<exists>h. conversationMemory
          (processQueries (replicate 11 (silentEnv, TextInput (lit ''panadol''), sampleContext))
             panadolOrchestrator) (lit ''conv_1'') = Some h \<and>
       length h = 10"
proof -
  let ?orch = "processQueries (replicate 11 (silentEnv, TextInput (lit ''panadol''), sampleContext))
                 panadolOrchestrator"
  have empty: "conversationMemory panadolOrchestrator = Map.empty"
    by (simp add: panadolOrchestrator_def registerAgent_def newOrchestrator_def)
  have cid: "conversationId sampleContext = Some (lit ''conv_1'')" "lit ''conv_1'' \<noteq> []"
    by (simp_all add: sampleContext_def)
  have "historyLength panadolOrchestrator (lit ''conv_1'') = 0"
    using empty by (simp add: historyLength_def)
  then have "historyLength ?orch (lit ''conv_1'') = 10"
    using processQueries_text_historyLength [OF cid, of panadolOrchestrator 11 silentEnv "lit ''panadol''"]
    by simp
  then obtain h where h: "conversationMemory ?orch (lit ''conv_1'') = Some h" "10 \<le> length h"
    by (auto simp add: historyLength_def split: option.splits)
  from conversationMemory_at_most_ten [of panadolOrchestrator
      "replicate 11 (silentEnv, TextInput (lit ''panadol''), sampleContext)"] empty h(1)
  have "length h \<le> 10" by blast
  with h show ?thesis by simp
qed

section \<open>The profile of a medicine (getDrugInformation)\<close>















end
